theory Spec2Isabelle
  imports Main "HOL-Library.AList"
begin

section \<open>The BLAS/LAPACK wrapper generator\<close>

text \<open>
  A shallow embedding of \<^verbatim>\<open>scipy/_build_utils/_generate_blas_wrapper.py\<close>.
  Python strings are modelled as \<^typ>\<open>string\<close>, exceptions as values of
  \<open>py_error\<close>, dictionaries as association lists that keep Python's insertion order.
\<close>

subsection \<open>Exceptions\<close>

datatype py_error =
    KeyError string
  | UnboundLocalError string
  | TypeError string
  | FileNotFoundError string
  | ParseError string

subsection \<open>Signatures and the imported configuration\<close>

text \<open>
  One parsed signature: the dictionary with the keys \<^verbatim>\<open>name\<close>,
  \<^verbatim>\<open>return_type\<close>, \<^verbatim>\<open>argnames\<close> and \<^verbatim>\<open>argtypes\<close> that
  \<^verbatim>\<open>generate_file_wrapper\<close> unpacks with \<^verbatim>\<open>**sig\<close>.
\<close>

record signature =
  sig_name :: string
  sig_return_type :: string
  sig_argnames :: "string list"
  sig_argtypes :: "string list"

text \<open>
  The names imported from the module \<^verbatim>\<open>_wrappers_common\<close> are parameters of the
  model: the string constants, the type table \<^verbatim>\<open>C_TYPES\<close>, the two exception sets,
  the symbol lookup \<^verbatim>\<open>get_blas_macro_and_name\<close> and the parser
  \<^verbatim>\<open>read_signatures\<close>. The field \<open>module_file\<close> stands for
  \<^verbatim>\<open>os.path.abspath(__file__)\<close>, the generator's own absolute path.
\<close>

record config =
  C_PREAMBLE :: string
  C_TYPES :: "string \<rightharpoonup> string"
  CPP_GUARD_BEGIN :: string
  CPP_GUARD_END :: string
  LAPACK_DECLS :: string
  USE_OLD_ACCELERATE :: "string set"
  WRAPPED_FUNCS :: "string set"
  get_blas_macro_and_name :: "string \<Rightarrow> bool \<Rightarrow> string \<times> string"
  read_signatures :: "string list \<Rightarrow> py_error + signature list"
  module_file :: string

subsection \<open>Python library functions used by the generator\<close>

text \<open>\<^verbatim>\<open>sep.join(xs)\<close>.\<close>

fun join :: "string \<Rightarrow> string list \<Rightarrow> string" where
  "join sep [] = []"
| "join sep [x] = x"
| "join sep (x # y # ys) = x @ sep @ join sep (y # ys)"

text \<open>
  \<^verbatim>\<open>str.upper()\<close> on ASCII text: the letters \<^verbatim>\<open>a\<close> to \<^verbatim>\<open>z\<close> move to
  \<^verbatim>\<open>A\<close> to \<^verbatim>\<open>Z\<close>, every other character stays. Routine names are ASCII
  identifiers.
\<close>

definition upper_char :: "char \<Rightarrow> char" where
  "upper_char c =
     (case map_of (zip ''abcdefghijklmnopqrstuvwxyz'' ''ABCDEFGHIJKLMNOPQRSTUVWXYZ'') c of
        None \<Rightarrow> c
      | Some u \<Rightarrow> u)"

definition upper :: "string \<Rightarrow> string" where
  "upper s = map upper_char s"

text \<open>
  \<^verbatim>\<open>os.path.basename\<close> and the two-argument \<^verbatim>\<open>os.path.join\<close> of
  \<^verbatim>\<open>posixpath\<close>: an absolute second component replaces the first, otherwise the
  components are joined with one separator unless the first is empty or already ends
  with one.
\<close>

definition basename :: "string \<Rightarrow> string" where
  "basename p = rev (takeWhile (\<lambda>c. c \<noteq> CHR ''/'') (rev p))"

definition path_join :: "string \<Rightarrow> string \<Rightarrow> string" where
  "path_join a b =
     (if b \<noteq> [] \<and> hd b = CHR ''/'' then b
      else if a = [] \<or> last a = CHR ''/'' then a @ b
      else a @ ''/'' @ b)"

text \<open>\<^verbatim>\<open>d[k]\<close> on a dictionary, raising \<^verbatim>\<open>KeyError\<close> for a missing key.\<close>

definition getitem :: "(string \<rightharpoonup> 'v) \<Rightarrow> string \<Rightarrow> py_error + 'v" where
  "getitem d k = (case d k of None \<Rightarrow> Inl (KeyError k) | Some v \<Rightarrow> Inr v)"

text \<open>
  The list comprehension \<^verbatim>\<open>[C_TYPES[t] for t in argtypes]\<close>: the first missing key
  raises.
\<close>

fun getitems :: "(string \<rightharpoonup> 'v) \<Rightarrow> string list \<Rightarrow> py_error + 'v list" where
  "getitems d [] = Inr []"
| "getitems d (t # ts) =
     (case getitem d t of
        Inl e \<Rightarrow> Inl e
      | Inr v \<Rightarrow> (case getitems d ts of Inl e \<Rightarrow> Inl e | Inr vs \<Rightarrow> Inr (v # vs)))"

subsection \<open>The generator\<close>

definition C_COMMENT :: "config \<Rightarrow> string" where
  "C_COMMENT cfg =
     ''/*\<newline>This file was generated by '' @ basename (module_file cfg)
       @ ''.\<newline>Do not edit this file directly.\<newline>*/\<newline>\<newline>''"

definition generate_decl_wrapper ::
  "config \<Rightarrow> string \<Rightarrow> string \<Rightarrow> string list \<Rightarrow> string list \<Rightarrow> bool \<Rightarrow> py_error + string"
where
  "generate_decl_wrapper cfg name return_type argnames argtypes accelerate =
     (if name \<in> WRAPPED_FUNCS cfg then Inr ''''
      else if accelerate \<and> name \<in> USE_OLD_ACCELERATE cfg then Inr ''''
      else
        (case getitem (C_TYPES cfg) return_type of
           Inl e \<Rightarrow> Inl e
         | Inr c_return_type \<Rightarrow>
            (case getitems (C_TYPES cfg) argtypes of
               Inl e \<Rightarrow> Inl e
             | Inr c_argtypes \<Rightarrow>
                (let param_list =
                       join '', '' (map (\<lambda>(t, n). t @ '' *'' @ n) (zip c_argtypes argnames));
                     argnames_joined = join '', '' argnames;
                     (blas_macro, blas_name) = get_blas_macro_and_name cfg name accelerate
                 in Inr (''\<newline>''
                      @ c_return_type @ '' '' @ blas_macro @ ''('' @ blas_name @ '')(''
                        @ param_list @ '');\<newline>''
                      @ c_return_type @ '' F_FUNC('' @ name @ '','' @ upper name @ '')(''
                        @ param_list @ ''){\<newline>''
                      @ ''    return '' @ blas_macro @ ''('' @ blas_name @ '')(''
                        @ argnames_joined @ '');\<newline>''
                      @ ''}\<newline>'')))))"

text \<open>
  The output path of a signature, \<^verbatim>\<open>os.path.join(outdir, sig["name"] + '.c')\<close>,
  which \<^verbatim>\<open>generate_file_wrapper\<close> and \<^verbatim>\<open>make_all\<close> both compute.
\<close>

definition dst_path :: "string \<Rightarrow> signature \<Rightarrow> string" where
  "dst_path outdir sig = path_join outdir (sig_name sig @ ''.c'')"

definition preamble_of :: "config \<Rightarrow> string \<Rightarrow> string list option" where
  "preamble_of cfg lib_name =
     (if lib_name = ''BLAS'' then Some [C_COMMENT cfg, C_PREAMBLE cfg, CPP_GUARD_BEGIN cfg]
      else if lib_name = ''LAPACK''
        then Some [C_COMMENT cfg, C_PREAMBLE cfg, LAPACK_DECLS cfg, CPP_GUARD_BEGIN cfg]
      else None)"

text \<open>
  The loop of \<^verbatim>\<open>generate_file_wrapper\<close>. The local \<^verbatim>\<open>preamble\<close> is bound only for
  the library names \<^verbatim>\<open>BLAS\<close> and \<^verbatim>\<open>LAPACK\<close>; for any other name the first
  iteration reads an unbound local. The dictionary \<^verbatim>\<open>wrappers\<close> is an association
  list: assigning to an existing key replaces its value in place, a new key is appended.
\<close>

fun wrappers_loop ::
  "config \<Rightarrow> string list option \<Rightarrow> bool \<Rightarrow> string \<Rightarrow> (string \<times> string) list
     \<Rightarrow> signature list \<Rightarrow> py_error + (string \<times> string) list"
where
  "wrappers_loop cfg preamble accelerate outdir wrappers [] = Inr wrappers"
| "wrappers_loop cfg preamble accelerate outdir wrappers (sig # sigs) =
     (let file_path = dst_path outdir sig
      in case preamble of
           None \<Rightarrow> Inl (UnboundLocalError ''preamble'')
         | Some pre \<Rightarrow>
            (case generate_decl_wrapper cfg (sig_name sig) (sig_return_type sig)
                    (sig_argnames sig) (sig_argtypes sig) accelerate of
               Inl e \<Rightarrow> Inl e
             | Inr decl \<Rightarrow>
                 wrappers_loop cfg preamble accelerate outdir
                   (AList.update file_path (concat (pre @ [decl, CPP_GUARD_END cfg])) wrappers)
                   sigs))"

definition generate_file_wrapper ::
  "config \<Rightarrow> signature list \<Rightarrow> string \<Rightarrow> bool \<Rightarrow> string
     \<Rightarrow> py_error + (string \<times> string) list"
where
  "generate_file_wrapper cfg sigs lib_name accelerate outdir =
     wrappers_loop cfg (preamble_of cfg lib_name) accelerate outdir [] sigs"

subsection \<open>The file system and \<^verbatim>\<open>make_all\<close>\<close>

text \<open>
  The part of the outside world that \<^verbatim>\<open>make_all\<close> touches: the files (text and
  modification time per path), a clock, the lines printed so far and the log of the
  paths written so far.
\<close>

record world =
  files :: "string \<rightharpoonup> string \<times> nat"
  clock :: nat
  stdout :: "string list"
  writes :: "string list"

text \<open>
  \<^verbatim>\<open>f.readlines()\<close>: the text split after every newline, each line keeping its
  terminator. The text of a file is the text as Python's text mode delivers it, line ends
  already translated.
\<close>

fun readlines :: "string \<Rightarrow> string list" where
  "readlines [] = []"
| "readlines (c # cs) =
     (if c = CHR ''\<newline>'' then [c] # readlines cs
      else (case readlines cs of [] \<Rightarrow> [[c]] | l # ls \<Rightarrow> (c # l) # ls))"

text \<open>\<^verbatim>\<open>with open(path) as f: f.readlines()\<close>, raising for a missing file.\<close>

definition open_readlines :: "world \<Rightarrow> string \<Rightarrow> py_error + string list" where
  "open_readlines w path =
     (case files w path of
        None \<Rightarrow> Inl (FileNotFoundError path)
      | Some (text, mtime) \<Rightarrow> Inr (readlines text))"

text \<open>
  Modelled from the spec: \<^verbatim>\<open>all_newer\<close> of the module \<^verbatim>\<open>_wrappers_common\<close>,
  which is not among the sources. The spec: "compare modification times of all
  prospective output files against all known input files [...]. If every output file
  exists and is newer than every input file, skip generation". An output is compared
  with an input by \<open>newer\<close>; a missing file on either side counts as not newer.
\<close>

definition newer :: "world \<Rightarrow> string \<Rightarrow> string \<Rightarrow> bool" where
  "newer w dst src =
     (case files w dst of
        None \<Rightarrow> False
      | Some (dst_text, dst_mtime) \<Rightarrow>
         (case files w src of
            None \<Rightarrow> False
          | Some (src_text, src_mtime) \<Rightarrow> src_mtime < dst_mtime))"

definition all_newer :: "world \<Rightarrow> string list \<Rightarrow> string list \<Rightarrow> bool" where
  "all_newer w dst_files src_files =
     (\<forall>dst \<in> set dst_files. \<forall>src \<in> set src_files. newer w dst src)"

text \<open>
  Modelled from the spec: \<^verbatim>\<open>write_files\<close> of the module \<^verbatim>\<open>_wrappers_common\<close>,
  which is not among the sources. The spec: the generated text is "keyed by an output
  file path (one per routine); written verbatim", and the run must "generate and
  overwrite all output files unconditionally". Each entry of the dictionary is written
  in turn; a write advances the clock and stamps the file with the new time. A write
  that the operating system refuses is outside the model.
\<close>

fun write_files :: "(string \<times> string) list \<Rightarrow> world \<Rightarrow> world" where
  "write_files [] w = w"
| "write_files ((file_path, content) # rest) w =
     write_files rest
       (w\<lparr>files := (files w)(file_path \<mapsto> (content, Suc (clock w))),
          clock := Suc (clock w),
          writes := writes w @ [file_path]\<rparr>)"

text \<open>
  \<^verbatim>\<open>dict(**a, **b)\<close>: a key of \<^verbatim>\<open>b\<close> that \<^verbatim>\<open>a\<close> already has is a repeated
  keyword argument, and Python raises \<^verbatim>\<open>TypeError\<close>.
\<close>

definition dict_kwargs ::
  "(string \<times> 'v) list \<Rightarrow> (string \<times> 'v) list \<Rightarrow> py_error + (string \<times> 'v) list"
where
  "dict_kwargs a b =
     (case filter (\<lambda>k. k \<in> fst ` set a) (map fst b) of
        [] \<Rightarrow> Inr (a @ b)
      | k # ks \<Rightarrow> Inl (TypeError k))"

definition up_to_date_message :: string where
  "up_to_date_message = ''scipy/_build_utils/_generate_blas_wrapper.py: all files up-to-date''"

text \<open>
  \<^verbatim>\<open>make_all\<close> with its two signature files given explicitly. The result is the
  world after the run, or the exception that ended it.
\<close>

definition make_all ::
  "config \<Rightarrow> string \<Rightarrow> string \<Rightarrow> string \<Rightarrow> bool \<Rightarrow> world \<Rightarrow> py_error + world"
where
  "make_all cfg outdir blas_signature_file lapack_signature_file accelerate w =
     (case open_readlines w blas_signature_file of
        Inl e \<Rightarrow> Inl e
      | Inr blas_lines \<Rightarrow>
     (case open_readlines w lapack_signature_file of
        Inl e \<Rightarrow> Inl e
      | Inr lapack_lines \<Rightarrow>
     (case read_signatures cfg blas_lines of
        Inl e \<Rightarrow> Inl e
      | Inr blas_sigs \<Rightarrow>
     (case read_signatures cfg lapack_lines of
        Inl e \<Rightarrow> Inl e
      | Inr lapack_sigs \<Rightarrow>
     (let src_files = [module_file cfg, blas_signature_file, lapack_signature_file];
          dst_files = map (dst_path outdir) (blas_sigs @ lapack_sigs)
      in if all_newer w dst_files src_files
         then Inr (w\<lparr>stdout := stdout w @ [up_to_date_message]\<rparr>)
         else
          (case generate_file_wrapper cfg blas_sigs ''BLAS'' accelerate outdir of
             Inl e \<Rightarrow> Inl e
           | Inr blas_wrappers \<Rightarrow>
          (case generate_file_wrapper cfg lapack_sigs ''LAPACK'' accelerate outdir of
             Inl e \<Rightarrow> Inl e
           | Inr lapack_wrappers \<Rightarrow>
          (case dict_kwargs blas_wrappers lapack_wrappers of
             Inl e \<Rightarrow> Inl e
           | Inr to_write \<Rightarrow> Inr (write_files to_write w)))))))))"

subsection \<open>A sample configuration\<close>

text \<open>
  Concrete values for the imported names, used to run the generator on concrete inputs.
  The symbol lookup is the default named in the docstring of
  \<^verbatim>\<open>generate_decl_wrapper\<close>, \<^verbatim>\<open>BLAS_FUNC(name)\<close>; the sample parser knows three
  signature lines.
\<close>

definition sig_drotg :: signature where
  "sig_drotg = \<lparr>sig_name = ''drotg'', sig_return_type = ''void'',
     sig_argnames = [''a'', ''b'', ''c'', ''s''], sig_argtypes = [''d'', ''d'', ''d'', ''d'']\<rparr>"

definition sig_cdotc :: signature where
  "sig_cdotc = \<lparr>sig_name = ''cdotc'', sig_return_type = ''c'',
     sig_argnames = [''n'', ''cx''], sig_argtypes = [''int'', ''c'']\<rparr>"

definition sig_dlamch :: signature where
  "sig_dlamch = \<lparr>sig_name = ''dlamch'', sig_return_type = ''d'',
     sig_argnames = [''cmach''], sig_argtypes = [''char'']\<rparr>"

definition sample_read_signatures :: "string list \<Rightarrow> py_error + signature list" where
  "sample_read_signatures ls =
     (if \<forall>l \<in> set ls. l \<in> {''drotg\<newline>'', ''cdotc\<newline>'', ''dlamch\<newline>''}
      then Inr (map (\<lambda>l. if l = ''drotg\<newline>'' then sig_drotg
                          else if l = ''cdotc\<newline>'' then sig_cdotc else sig_dlamch) ls)
      else Inl (ParseError (concat ls)))"

definition sample_config :: config where
  "sample_config =
     \<lparr>C_PREAMBLE = ''#include <npy_cblas.h>\<newline>'',
      C_TYPES = map_of [(''int'', ''int''), (''c'', ''npy_complex64''), (''d'', ''double''),
                        (''s'', ''float''), (''char'', ''char''), (''void'', ''void'')],
      CPP_GUARD_BEGIN = ''#ifdef __cplusplus\<newline>extern '' @ [CHR 0x22, CHR ''C'', CHR 0x22]
                          @ '' {\<newline>#endif\<newline>'',
      CPP_GUARD_END = ''#ifdef __cplusplus\<newline>}\<newline>#endif\<newline>'',
      LAPACK_DECLS = ''typedef int (*_dselect2)(double*, double*);\<newline>'',
      USE_OLD_ACCELERATE = {''lsame'', ''dcabs1''},
      WRAPPED_FUNCS = {''cdotc'', ''cdotu'', ''zdotc'', ''zdotu'', ''cladiv'', ''zladiv''},
      get_blas_macro_and_name = (\<lambda>name accelerate. (''BLAS_FUNC'', name)),
      read_signatures = sample_read_signatures,
      module_file = ''/scipy/_build_utils/_generate_blas_wrapper.py''\<rparr>"

text \<open>
  A sample file system: the generator, the two signature files and the three output files,
  with the modification time of \<^verbatim>\<open>out/drotg.c\<close> left open.
\<close>

definition sample_world :: "nat \<Rightarrow> world" where
  "sample_world drotg_mtime =
     \<lparr>files = map_of
        [(''/scipy/_build_utils/_generate_blas_wrapper.py'', (''import argparse\<newline>'', 3)),
         (''/sigs/blas.txt'', (''drotg\<newline>cdotc\<newline>'', 5)),
         (''/sigs/lapack.txt'', (''dlamch\<newline>'', 6)),
         (''out/drotg.c'', (''old drotg'', drotg_mtime)),
         (''out/cdotc.c'', (''old cdotc'', 10)),
         (''out/dlamch.c'', (''old dlamch'', 10))],
      clock = 10,
      stdout = [],
      writes = []\<rparr>"

text \<open>The call \<^verbatim>\<open>generate_decl_wrapper(**sig, accelerate=accelerate)\<close>.\<close>

abbreviation decl_of_sig :: "config \<Rightarrow> signature \<Rightarrow> bool \<Rightarrow> py_error + string" where
  "decl_of_sig cfg sig accelerate \<equiv>
     generate_decl_wrapper cfg (sig_name sig) (sig_return_type sig) (sig_argnames sig)
       (sig_argtypes sig) accelerate"

section \<open>Properties\<close>

subsection \<open>Lookups and the loop over the signatures\<close>

lemmas sample_defs =
  sample_config_def sample_read_signatures_def sig_drotg_def sig_cdotc_def sig_dlamch_def
  sample_world_def dst_path_def path_join_def

lemma getitem_Inr_iff: "getitem d k = Inr v \<longleftrightarrow> d k = Some v"
  by (simp add: getitem_def split: option.splits)

lemma getitems_Inr_iff:
  "getitems d ts = Inr vs \<longleftrightarrow> map d ts = map Some vs"
proof (induction ts arbitrary: vs)
  case Nil
  show ?case by auto
next
  case (Cons t ts)
  show ?case
    by (cases vs) (auto simp: getitem_def Cons.IH [symmetric] split: sum.splits option.splits)
qed

lemma getitems_length: "getitems d ts = Inr vs \<Longrightarrow> length vs = length ts"
  by (metis getitems_Inr_iff length_map)

lemma getitems_nth:
  "getitems d ts = Inr vs \<Longrightarrow> i < length ts \<Longrightarrow> d (ts ! i) = Some (vs ! i)"
  by (metis getitems_Inr_iff getitems_length nth_map)

lemma getitems_total:
  "set ts \<subseteq> dom d \<Longrightarrow> getitems d ts = Inr (map (\<lambda>t. the (d t)) ts)"
  by (induction ts) (auto simp: getitem_def)

lemma loop_None:
  "wrappers_loop cfg None acc outdir ws sigs = Inr m \<Longrightarrow> sigs = [] \<and> m = ws"
  by (cases sigs) auto

lemma loop_keys:
  "wrappers_loop cfg pre acc outdir ws sigs = Inr m \<Longrightarrow>
     fst ` set m = fst ` set ws \<union> dst_path outdir ` set sigs"
proof (induction sigs arbitrary: ws)
  case Nil
  then show ?case by simp
next
  case (Cons sig sigs)
  then show ?case
    by (auto simp: Let_def AList.dom_update split: option.splits sum.splits)
qed

lemma loop_lookup:
  "wrappers_loop cfg pre acc outdir ws sigs = Inr m \<Longrightarrow> map_of m p = Some v \<Longrightarrow>
     map_of ws p = Some v \<or>
     (\<exists>sig \<in> set sigs. \<exists>pre' d. pre = Some pre' \<and> dst_path outdir sig = p \<and>
        decl_of_sig cfg sig acc = Inr d \<and> v = concat (pre' @ [d, CPP_GUARD_END cfg]))"
proof (induction sigs arbitrary: ws)
  case Nil
  then show ?case by simp
next
  case (Cons sig sigs)
  from Cons.prems(1) obtain pre' d where
    pre: "pre = Some pre'" and d: "decl_of_sig cfg sig acc = Inr d" and
    rest: "wrappers_loop cfg pre acc outdir
             (AList.update (dst_path outdir sig) (concat (pre' @ [d, CPP_GUARD_END cfg])) ws) sigs
           = Inr m"
    by (auto simp: Let_def split: option.splits sum.splits)
  from Cons.IH [OF rest Cons.prems(2)] show ?case
    using pre d by (auto simp: AList.update_conv' split: if_splits)
qed

lemma loop_distinct:
  "wrappers_loop cfg pre acc outdir ws sigs = Inr m \<Longrightarrow> distinct (map fst ws) \<Longrightarrow>
     distinct (map fst m)"
proof (induction sigs arbitrary: ws)
  case Nil
  then show ?case by simp
next
  case (Cons sig sigs)
  then show ?case
    by (auto simp: Let_def AList.distinct_update split: option.splits sum.splits)
qed

lemma length_update_le: "length (AList.update k v al) \<le> Suc (length al)"
  by (induction al) auto

lemma loop_length:
  "wrappers_loop cfg pre acc outdir ws sigs = Inr m \<Longrightarrow> length m \<le> length ws + length sigs"
proof (induction sigs arbitrary: ws)
  case Nil
  then show ?case by simp
next
  case (Cons sig sigs)
  from Cons.prems obtain ws' where
    rest: "wrappers_loop cfg pre acc outdir ws' sigs = Inr m" and
    len: "length ws' \<le> Suc (length ws)"
    by (auto simp: Let_def length_update_le split: option.splits sum.splits)
  from Cons.IH [OF rest] len show ?case by simp
qed

lemma loop_total:
  "\<forall>sig \<in> set sigs. \<exists>d. decl_of_sig cfg sig acc = Inr d \<Longrightarrow>
     \<exists>m. wrappers_loop cfg (Some pre') acc outdir ws sigs = Inr m"
proof (induction sigs arbitrary: ws)
  case Nil
  then show ?case by simp
next
  case (Cons sig sigs)
  then show ?case by (auto simp: Let_def)
qed

lemma loop_succeeds_decls:
  "wrappers_loop cfg pre acc outdir ws sigs = Inr m \<Longrightarrow> sig \<in> set sigs \<Longrightarrow>
     \<exists>d. decl_of_sig cfg sig acc = Inr d"
proof (induction sigs arbitrary: ws)
  case Nil
  then show ?case by simp
next
  case (Cons s sigs)
  then show ?case
    by (auto simp: Let_def split: option.splits sum.splits)
qed

subsection \<open>The wrapper of one routine\<close>

lemma generate_decl_wrapper_excluded:
  "name \<in> WRAPPED_FUNCS cfg \<or> (accelerate \<and> name \<in> USE_OLD_ACCELERATE cfg) \<Longrightarrow>
     generate_decl_wrapper cfg name return_type argnames argtypes accelerate = Inr ''''"
  by (auto simp: generate_decl_wrapper_def)

lemma generate_decl_wrapper_render:
  assumes "name \<notin> WRAPPED_FUNCS cfg"
    and "\<not> (accelerate \<and> name \<in> USE_OLD_ACCELERATE cfg)"
    and "C_TYPES cfg return_type = Some c_return_type"
    and "getitems (C_TYPES cfg) argtypes = Inr c_argtypes"
  shows "generate_decl_wrapper cfg name return_type argnames argtypes accelerate =
     Inr (''\<newline>''
       @ c_return_type @ '' '' @ fst (get_blas_macro_and_name cfg name accelerate)
       @ ''('' @ snd (get_blas_macro_and_name cfg name accelerate) @ '')(''
       @ join '', '' (map (\<lambda>(t, n). t @ '' *'' @ n) (zip c_argtypes argnames)) @ '');\<newline>''
       @ c_return_type @ '' F_FUNC('' @ name @ '','' @ upper name @ '')(''
       @ join '', '' (map (\<lambda>(t, n). t @ '' *'' @ n) (zip c_argtypes argnames)) @ ''){\<newline>''
       @ ''    return '' @ fst (get_blas_macro_and_name cfg name accelerate)
       @ ''('' @ snd (get_blas_macro_and_name cfg name accelerate) @ '')(''
       @ join '', '' argnames @ '');\<newline>''
       @ ''}\<newline>'')"
  using assms
  by (simp add: generate_decl_wrapper_def getitem_def Let_def split: prod.splits)

lemma generate_decl_wrapper_Inr_types:
  assumes "name \<notin> WRAPPED_FUNCS cfg"
    and "\<not> (accelerate \<and> name \<in> USE_OLD_ACCELERATE cfg)"
    and "generate_decl_wrapper cfg name return_type argnames argtypes accelerate = Inr txt"
  shows "\<exists>c_return_type c_argtypes. C_TYPES cfg return_type = Some c_return_type \<and>
           getitems (C_TYPES cfg) argtypes = Inr c_argtypes"
  using assms
  by (auto simp: generate_decl_wrapper_def getitem_def split: option.splits sum.splits)

text \<open>
  Claim C1. For a signature that neither exception set excludes, whose types are keys of
  \<^verbatim>\<open>C_TYPES\<close> and whose \<^verbatim>\<open>argtypes\<close> are as many as its \<^verbatim>\<open>argnames\<close>,
  the generated text is a newline, one external declaration of
  \<^verbatim>\<open>blas_macro(blas_name)\<close>, a newline, one forwarding definition under
  \<^verbatim>\<open>F_FUNC(name,NAME)\<close> and a newline. Both carry the same parameter list, which has
  one parameter per argument name, in the order of the argument names.
\<close>

theorem one_declaration_one_definition:
  assumes "name \<notin> WRAPPED_FUNCS cfg"
    and "\<not> (accelerate \<and> name \<in> USE_OLD_ACCELERATE cfg)"
    and "return_type \<in> dom (C_TYPES cfg)"
    and "set argtypes \<subseteq> dom (C_TYPES cfg)"
    and "length argtypes = length argnames"
  shows "\<exists>c_return_type params.
    C_TYPES cfg return_type = Some c_return_type \<and>
    length params = length argnames \<and>
    (\<forall>i < length argnames. \<exists>t. C_TYPES cfg (argtypes ! i) = Some t \<and>
        params ! i = t @ '' *'' @ argnames ! i) \<and>
    generate_decl_wrapper cfg name return_type argnames argtypes accelerate =
      Inr (''\<newline>''
        @ (c_return_type @ '' '' @ fst (get_blas_macro_and_name cfg name accelerate)
            @ ''('' @ snd (get_blas_macro_and_name cfg name accelerate) @ '')(''
            @ join '', '' params @ '');'')
        @ ''\<newline>''
        @ (c_return_type @ '' F_FUNC('' @ name @ '','' @ upper name @ '')(''
            @ join '', '' params @ ''){\<newline>''
            @ ''    return '' @ fst (get_blas_macro_and_name cfg name accelerate)
            @ ''('' @ snd (get_blas_macro_and_name cfg name accelerate) @ '')(''
            @ join '', '' argnames @ '');\<newline>''
            @ ''}'')
        @ ''\<newline>'')"
proof -
  from assms(3) obtain c where c: "C_TYPES cfg return_type = Some c" by auto
  define cats where "cats = map (\<lambda>t. the (C_TYPES cfg t)) argtypes"
  define params where "params = map (\<lambda>(t, n). t @ '' *'' @ n) (zip cats argnames)"
  have g: "getitems (C_TYPES cfg) argtypes = Inr cats"
    using assms(4) by (simp add: cats_def getitems_total)
  have len: "length params = length argnames"
    using assms(5) by (simp add: params_def cats_def)
  have nth: "\<exists>t. C_TYPES cfg (argtypes ! i) = Some t \<and> params ! i = t @ '' *'' @ argnames ! i"
    if "i < length argnames" for i
  proof -
    from that assms(5) have i: "i < length argtypes" by simp
    with assms(4) have "argtypes ! i \<in> dom (C_TYPES cfg)" by (auto simp: subset_eq)
    then obtain t where t: "C_TYPES cfg (argtypes ! i) = Some t" by auto
    from i that t have "params ! i = t @ '' *'' @ argnames ! i"
      by (simp add: params_def cats_def)
    with t show ?thesis by blast
  qed
  have r: "generate_decl_wrapper cfg name return_type argnames argtypes accelerate =
      Inr (''\<newline>''
        @ (c @ '' '' @ fst (get_blas_macro_and_name cfg name accelerate)
            @ ''('' @ snd (get_blas_macro_and_name cfg name accelerate) @ '')(''
            @ join '', '' params @ '');'')
        @ ''\<newline>''
        @ (c @ '' F_FUNC('' @ name @ '','' @ upper name @ '')(''
            @ join '', '' params @ ''){\<newline>''
            @ ''    return '' @ fst (get_blas_macro_and_name cfg name accelerate)
            @ ''('' @ snd (get_blas_macro_and_name cfg name accelerate) @ '')(''
            @ join '', '' argnames @ '');\<newline>''
            @ ''}'')
        @ ''\<newline>'')"
    using generate_decl_wrapper_render [OF assms(1) assms(2) c g, of argnames]
    by (simp add: params_def)
  from c len nth r show ?thesis by blast
qed

theorem one_declaration_one_definition_witness:
  "''drotg'' \<notin> WRAPPED_FUNCS sample_config \<and>
   \<not> (False \<and> ''drotg'' \<in> USE_OLD_ACCELERATE sample_config) \<and>
   ''void'' \<in> dom (C_TYPES sample_config) \<and>
   set [''d'', ''d'', ''d'', ''d''] \<subseteq> dom (C_TYPES sample_config) \<and>
   length [''d'', ''d'', ''d'', ''d''] = length [''a'', ''b'', ''c'', ''s''] \<and>
   (\<exists>c_return_type params.
      C_TYPES sample_config ''void'' = Some c_return_type \<and>
      length params = length [''a'', ''b'', ''c'', ''s''] \<and>
      (\<forall>i < length [''a'', ''b'', ''c'', ''s''].
          \<exists>t. C_TYPES sample_config ([''d'', ''d'', ''d'', ''d''] ! i) = Some t \<and>
              params ! i = t @ '' *'' @ [''a'', ''b'', ''c'', ''s''] ! i) \<and>
      generate_decl_wrapper sample_config ''drotg'' ''void'' [''a'', ''b'', ''c'', ''s'']
          [''d'', ''d'', ''d'', ''d''] False =
        Inr (''\<newline>''
          @ (c_return_type @ '' '' @ fst (get_blas_macro_and_name sample_config ''drotg'' False)
              @ ''('' @ snd (get_blas_macro_and_name sample_config ''drotg'' False) @ '')(''
              @ join '', '' params @ '');'')
          @ ''\<newline>''
          @ (c_return_type @ '' F_FUNC('' @ ''drotg'' @ '','' @ upper ''drotg'' @ '')(''
              @ join '', '' params @ ''){\<newline>''
              @ ''    return '' @ fst (get_blas_macro_and_name sample_config ''drotg'' False)
              @ ''('' @ snd (get_blas_macro_and_name sample_config ''drotg'' False) @ '')(''
              @ join '', '' [''a'', ''b'', ''c'', ''s''] @ '');\<newline>''
              @ ''}'')
          @ ''\<newline>''))"
proof -
  have h1: "''drotg'' \<notin> WRAPPED_FUNCS sample_config"
    by (simp add: sample_config_def)
  have h2: "\<not> (False \<and> ''drotg'' \<in> USE_OLD_ACCELERATE sample_config)"
    by simp
  have h3: "''void'' \<in> dom (C_TYPES sample_config)"
    by (simp add: sample_config_def)
  have h4: "set [''d'', ''d'', ''d'', ''d''] \<subseteq> dom (C_TYPES sample_config)"
    by (simp add: sample_config_def)
  have h5: "length [''d'', ''d'', ''d'', ''d''] = length [''a'', ''b'', ''c'', ''s'']"
    by simp
  note t = one_declaration_one_definition [OF h1 h2 h3 h4 h5]
  show ?thesis
    apply (intro conjI)
         apply (rule h1)
        apply (rule h2)
       apply (rule h3)
      apply (rule h4)
     apply (rule h5)
    apply (rule t)
    done
qed



text \<open>
  Claim C3. A routine of the set \<^verbatim>\<open>WRAPPED_FUNCS\<close> gets the empty string, whatever the
  accelerate flag, and the file generated for it is the preamble of the library followed at
  once by the closing guard.
\<close>

theorem wrapped_funcs_empty_body:
  assumes "name \<in> WRAPPED_FUNCS cfg"
  shows "generate_decl_wrapper cfg name return_type argnames argtypes accelerate = Inr '''' \<and>
    (\<forall>lib_name pre. preamble_of cfg lib_name = Some pre \<longrightarrow>
       generate_file_wrapper cfg
         [\<lparr>sig_name = name, sig_return_type = return_type, sig_argnames = argnames,
           sig_argtypes = argtypes\<rparr>] lib_name accelerate outdir
       = Inr [(path_join outdir (name @ ''.c''), concat pre @ CPP_GUARD_END cfg)])"
  using assms
  by (simp add: generate_decl_wrapper_def generate_file_wrapper_def dst_path_def)

theorem wrapped_funcs_empty_body_witness:
  "''cdotc'' \<in> WRAPPED_FUNCS sample_config \<and>
   generate_decl_wrapper sample_config ''cdotc'' ''c'' [''n'', ''cx''] [''int'', ''c''] True
     = Inr '''' \<and>
   generate_decl_wrapper sample_config ''cdotc'' ''c'' [''n'', ''cx''] [''int'', ''c''] False
     = Inr '''' \<and>
   preamble_of sample_config ''BLAS''
     = Some [C_COMMENT sample_config, C_PREAMBLE sample_config, CPP_GUARD_BEGIN sample_config] \<and>
   generate_file_wrapper sample_config
     [\<lparr>sig_name = ''cdotc'', sig_return_type = ''c'', sig_argnames = [''n'', ''cx''],
       sig_argtypes = [''int'', ''c'']\<rparr>] ''BLAS'' True ''out''
     = Inr [(path_join ''out'' ''cdotc.c'',
             concat [C_COMMENT sample_config, C_PREAMBLE sample_config,
                     CPP_GUARD_BEGIN sample_config] @ CPP_GUARD_END sample_config)]"
proof -
  have w: "''cdotc'' \<in> WRAPPED_FUNCS sample_config"
    by (simp add: sample_config_def)
  have p: "preamble_of sample_config ''BLAS''
     = Some [C_COMMENT sample_config, C_PREAMBLE sample_config, CPP_GUARD_BEGIN sample_config]"
    by (simp add: preamble_of_def)
  note t = wrapped_funcs_empty_body [OF w, of "''c''" "[''n'', ''cx'']" "[''int'', ''c'']"]
  from t [of True "''out''"] t [of False "''out''"] w p show ?thesis
    by simp
qed

text \<open>
  Claim C4, as the claim states it, fails: the wrapper of a routine that returns
  \<^verbatim>\<open>void\<close> has a return statement too. Here is the text generated for
  \<^verbatim>\<open>drotg\<close>.
\<close>

theorem void_wrapper_returns_counterexample:
  "''drotg'' \<notin> WRAPPED_FUNCS sample_config \<and>
   C_TYPES sample_config ''void'' = Some ''void'' \<and>
   generate_decl_wrapper sample_config ''drotg'' ''void'' [''a'', ''b'', ''c'', ''s'']
       [''d'', ''d'', ''d'', ''d''] False =
     Inr ''\<newline>void BLAS_FUNC(drotg)(double *a, double *b, double *c, double *s);\<newline>void F_FUNC(drotg,DROTG)(double *a, double *b, double *c, double *s){\<newline>    return BLAS_FUNC(drotg)(a, b, c, s);\<newline>}\<newline>''"
  by code_simp

text \<open>
  Claim C4, amended. For every signature that neither exception set excludes and whose
  types are keys of \<^verbatim>\<open>C_TYPES\<close>, whatever the return type, \<^verbatim>\<open>void\<close>
  included, the body of the forwarding definition is the one statement that returns the
  result of the external call on the argument names. The return type enters the text only
  as its C type, written once in front of the declaration and once in front of the
  definition; the rest of the text is the same for every return type.
\<close>

theorem forwarding_body_always_returns:
  assumes "name \<notin> WRAPPED_FUNCS cfg"
    and "\<not> (accelerate \<and> name \<in> USE_OLD_ACCELERATE cfg)"
    and "C_TYPES cfg return_type = Some c_return_type"
    and "set argtypes \<subseteq> dom (C_TYPES cfg)"
  shows "generate_decl_wrapper cfg name return_type argnames argtypes accelerate =
    Inr (''\<newline>'' @ c_return_type
      @ ('' '' @ fst (get_blas_macro_and_name cfg name accelerate)
          @ ''('' @ snd (get_blas_macro_and_name cfg name accelerate) @ '')(''
          @ join '', '' (map (\<lambda>(t, n). t @ '' *'' @ n)
              (zip (map (\<lambda>t. the (C_TYPES cfg t)) argtypes) argnames))
          @ '');\<newline>'')
      @ c_return_type
      @ ('' F_FUNC('' @ name @ '','' @ upper name @ '')(''
          @ join '', '' (map (\<lambda>(t, n). t @ '' *'' @ n)
              (zip (map (\<lambda>t. the (C_TYPES cfg t)) argtypes) argnames))
          @ ''){\<newline>'')
      @ (''    return '' @ fst (get_blas_macro_and_name cfg name accelerate)
          @ ''('' @ snd (get_blas_macro_and_name cfg name accelerate) @ '')(''
          @ join '', '' argnames @ '');\<newline>''
          @ ''}\<newline>''))"
proof -
  have g: "getitems (C_TYPES cfg) argtypes = Inr (map (\<lambda>t. the (C_TYPES cfg t)) argtypes)"
    using assms(4) by (simp add: getitems_total)
  show ?thesis
    by (simp add: generate_decl_wrapper_render [OF assms(1) assms(2) assms(3) g])
qed

theorem forwarding_body_always_returns_witness:
  "''drotg'' \<notin> WRAPPED_FUNCS sample_config \<and>
   \<not> (True \<and> ''drotg'' \<in> USE_OLD_ACCELERATE sample_config) \<and>
   C_TYPES sample_config ''void'' = Some ''void'' \<and>
   C_TYPES sample_config ''d'' = Some ''double'' \<and>
   set [''d'', ''d'', ''d'', ''d''] \<subseteq> dom (C_TYPES sample_config) \<and>
   generate_decl_wrapper sample_config ''drotg'' ''void'' [''a'', ''b'', ''c'', ''s''] [''d'', ''d'', ''d'', ''d''] True =
    Inr (''\<newline>'' @ ''void''
      @ ('' '' @ fst (get_blas_macro_and_name sample_config ''drotg'' True)
          @ ''('' @ snd (get_blas_macro_and_name sample_config ''drotg'' True) @ '')(''
          @ join '', '' (map (\<lambda>(t, n). t @ '' *'' @ n)
              (zip (map (\<lambda>t. the (C_TYPES sample_config t)) [''d'', ''d'', ''d'', ''d'']) [''a'', ''b'', ''c'', ''s'']))
          @ '');\<newline>'')
      @ ''void''
      @ ('' F_FUNC('' @ ''drotg'' @ '','' @ upper ''drotg'' @ '')(''
          @ join '', '' (map (\<lambda>(t, n). t @ '' *'' @ n)
              (zip (map (\<lambda>t. the (C_TYPES sample_config t)) [''d'', ''d'', ''d'', ''d'']) [''a'', ''b'', ''c'', ''s'']))
          @ ''){\<newline>'')
      @ (''    return '' @ fst (get_blas_macro_and_name sample_config ''drotg'' True)
          @ ''('' @ snd (get_blas_macro_and_name sample_config ''drotg'' True) @ '')(''
          @ join '', '' [''a'', ''b'', ''c'', ''s''] @ '');\<newline>''
          @ ''}\<newline>'')) \<and>
   generate_decl_wrapper sample_config ''drotg'' ''d'' [''a'', ''b'', ''c'', ''s''] [''d'', ''d'', ''d'', ''d''] True =
    Inr (''\<newline>'' @ ''double''
      @ ('' '' @ fst (get_blas_macro_and_name sample_config ''drotg'' True)
          @ ''('' @ snd (get_blas_macro_and_name sample_config ''drotg'' True) @ '')(''
          @ join '', '' (map (\<lambda>(t, n). t @ '' *'' @ n)
              (zip (map (\<lambda>t. the (C_TYPES sample_config t)) [''d'', ''d'', ''d'', ''d'']) [''a'', ''b'', ''c'', ''s'']))
          @ '');\<newline>'')
      @ ''double''
      @ ('' F_FUNC('' @ ''drotg'' @ '','' @ upper ''drotg'' @ '')(''
          @ join '', '' (map (\<lambda>(t, n). t @ '' *'' @ n)
              (zip (map (\<lambda>t. the (C_TYPES sample_config t)) [''d'', ''d'', ''d'', ''d'']) [''a'', ''b'', ''c'', ''s'']))
          @ ''){\<newline>'')
      @ (''    return '' @ fst (get_blas_macro_and_name sample_config ''drotg'' True)
          @ ''('' @ snd (get_blas_macro_and_name sample_config ''drotg'' True) @ '')(''
          @ join '', '' [''a'', ''b'', ''c'', ''s''] @ '');\<newline>''
          @ ''}\<newline>''))"
proof -
  have h1: "''drotg'' \<notin> WRAPPED_FUNCS sample_config"
    by (simp add: sample_config_def)
  have h2: "\<not> (True \<and> ''drotg'' \<in> USE_OLD_ACCELERATE sample_config)"
    by (simp add: sample_config_def)
  have h3: "C_TYPES sample_config ''void'' = Some ''void''"
    by (simp add: sample_config_def)
  have h3': "C_TYPES sample_config ''d'' = Some ''double''"
    by (simp add: sample_config_def)
  have h4: "set [''d'', ''d'', ''d'', ''d''] \<subseteq> dom (C_TYPES sample_config)"
    by (simp add: sample_config_def)
  show ?thesis
    by (rule conjI [OF h1 conjI [OF h2 conjI [OF h3 conjI [OF h3' conjI [OF h4
          conjI [OF forwarding_body_always_returns [OF h1 h2 h3 h4]
                    forwarding_body_always_returns [OF h1 h2 h3' h4]]]]]]])
qed

text \<open>
  Claim C10. In every generated wrapper, with or without the accelerate flag, the external
  declaration and the forwarding definition carry the same parameter list, and each
  parameter is the C type that \<^verbatim>\<open>C_TYPES\<close> gives for the argument type, then a space
  and a star, then the argument name.
\<close>

theorem parameters_are_pointers:
  assumes "name \<notin> WRAPPED_FUNCS cfg"
    and "\<not> (accelerate \<and> name \<in> USE_OLD_ACCELERATE cfg)"
    and "generate_decl_wrapper cfg name return_type argnames argtypes accelerate = Inr txt"
  shows "\<exists>c_return_type params.
    length params = min (length argtypes) (length argnames) \<and>
    (\<forall>i < length params. \<exists>t. C_TYPES cfg (argtypes ! i) = Some t \<and>
        params ! i = t @ '' *'' @ argnames ! i) \<and>
    txt = ''\<newline>''
        @ c_return_type @ '' '' @ fst (get_blas_macro_and_name cfg name accelerate)
        @ ''('' @ snd (get_blas_macro_and_name cfg name accelerate) @ '')(''
        @ join '', '' params @ '');\<newline>''
        @ c_return_type @ '' F_FUNC('' @ name @ '','' @ upper name @ '')(''
        @ join '', '' params @ ''){\<newline>''
        @ ''    return '' @ fst (get_blas_macro_and_name cfg name accelerate)
        @ ''('' @ snd (get_blas_macro_and_name cfg name accelerate) @ '')(''
        @ join '', '' argnames @ '');\<newline>''
        @ ''}\<newline>''"
proof -
  from generate_decl_wrapper_Inr_types [OF assms] obtain c cats where
    c: "C_TYPES cfg return_type = Some c" and g: "getitems (C_TYPES cfg) argtypes = Inr cats"
    by blast
  define params where "params = map (\<lambda>(t, n). t @ '' *'' @ n) (zip cats argnames)"
  have len: "length params = min (length argtypes) (length argnames)"
    using getitems_length [OF g] by (simp add: params_def)
  have nth: "\<exists>t. C_TYPES cfg (argtypes ! i) = Some t \<and> params ! i = t @ '' *'' @ argnames ! i"
    if "i < length params" for i
  proof -
    from that len have i: "i < length argtypes" "i < length argnames" by simp_all
    from getitems_nth [OF g i(1)] have t: "C_TYPES cfg (argtypes ! i) = Some (cats ! i)" .
    from i getitems_length [OF g] have "params ! i = cats ! i @ '' *'' @ argnames ! i"
      by (simp add: params_def)
    with t show ?thesis by blast
  qed
  have r: "txt = ''\<newline>''
        @ c @ '' '' @ fst (get_blas_macro_and_name cfg name accelerate)
        @ ''('' @ snd (get_blas_macro_and_name cfg name accelerate) @ '')(''
        @ join '', '' params @ '');\<newline>''
        @ c @ '' F_FUNC('' @ name @ '','' @ upper name @ '')(''
        @ join '', '' params @ ''){\<newline>''
        @ ''    return '' @ fst (get_blas_macro_and_name cfg name accelerate)
        @ ''('' @ snd (get_blas_macro_and_name cfg name accelerate) @ '')(''
        @ join '', '' argnames @ '');\<newline>''
        @ ''}\<newline>''"
    using generate_decl_wrapper_render [OF assms(1) assms(2) c g, of argnames] assms(3)
    by (simp add: params_def)
  from len nth r show ?thesis by blast
qed

theorem parameters_are_pointers_witness:
  "''dlamch'' \<notin> WRAPPED_FUNCS sample_config \<and>
   \<not> (True \<and> ''dlamch'' \<in> USE_OLD_ACCELERATE sample_config) \<and>
   generate_decl_wrapper sample_config ''dlamch'' ''d'' [''cmach''] [''char''] True =
     Inr ''\<newline>double BLAS_FUNC(dlamch)(char *cmach);\<newline>double F_FUNC(dlamch,DLAMCH)(char *cmach){\<newline>    return BLAS_FUNC(dlamch)(cmach);\<newline>}\<newline>'' \<and>
   (\<exists>c_return_type params.
      length params = min (length [''char'']) (length [''cmach'']) \<and>
      (\<forall>i < length params. \<exists>t. C_TYPES sample_config ([''char''] ! i) = Some t \<and>
          params ! i = t @ '' *'' @ [''cmach''] ! i) \<and>
      ''\<newline>double BLAS_FUNC(dlamch)(char *cmach);\<newline>double F_FUNC(dlamch,DLAMCH)(char *cmach){\<newline>    return BLAS_FUNC(dlamch)(cmach);\<newline>}\<newline>''
        = ''\<newline>''
          @ c_return_type @ '' '' @ fst (get_blas_macro_and_name sample_config ''dlamch'' True)
          @ ''('' @ snd (get_blas_macro_and_name sample_config ''dlamch'' True) @ '')(''
          @ join '', '' params @ '');\<newline>''
          @ c_return_type @ '' F_FUNC('' @ ''dlamch'' @ '','' @ upper ''dlamch'' @ '')(''
          @ join '', '' params @ ''){\<newline>''
          @ ''    return '' @ fst (get_blas_macro_and_name sample_config ''dlamch'' True)
          @ ''('' @ snd (get_blas_macro_and_name sample_config ''dlamch'' True) @ '')(''
          @ join '', '' [''cmach''] @ '');\<newline>''
          @ ''}\<newline>'')"
proof -
  have h1: "''dlamch'' \<notin> WRAPPED_FUNCS sample_config"
    by (simp add: sample_config_def)
  have h2: "\<not> (True \<and> ''dlamch'' \<in> USE_OLD_ACCELERATE sample_config)"
    by (simp add: sample_config_def)
  have h3: "generate_decl_wrapper sample_config ''dlamch'' ''d'' [''cmach''] [''char''] True =
     Inr ''\<newline>double BLAS_FUNC(dlamch)(char *cmach);\<newline>double F_FUNC(dlamch,DLAMCH)(char *cmach){\<newline>    return BLAS_FUNC(dlamch)(cmach);\<newline>}\<newline>''"
    by code_simp
  note t = parameters_are_pointers [OF h1 h2 h3]
  show ?thesis
    apply (intro conjI)
       apply (rule h1)
      apply (rule h2)
     apply (rule h3)
    apply (rule t)
    done
qed

subsection \<open>The files of one library\<close>

lemma generate_file_wrapper_preamble:
  "generate_file_wrapper cfg sigs lib_name accelerate outdir = Inr wrappers \<Longrightarrow> sigs \<noteq> [] \<Longrightarrow>
     \<exists>pre. preamble_of cfg lib_name = Some pre"
  by (cases "preamble_of cfg lib_name") (auto simp: generate_file_wrapper_def dest: loop_None)

lemma concat_preamble:
  "preamble_of cfg lib_name = Some pre \<Longrightarrow>
     concat (pre @ [decl, CPP_GUARD_END cfg]) =
       C_COMMENT cfg @ C_PREAMBLE cfg @ (if lib_name = ''LAPACK'' then LAPACK_DECLS cfg else '''')
         @ CPP_GUARD_BEGIN cfg @ decl @ CPP_GUARD_END cfg"
  by (auto simp: preamble_of_def split: if_splits)

lemma generate_file_wrapper_lookup:
  assumes "generate_file_wrapper cfg sigs lib_name accelerate outdir = Inr wrappers"
    and "sig \<in> set sigs"
  shows "\<exists>sig' \<in> set sigs. \<exists>decl'.
      dst_path outdir sig' = dst_path outdir sig \<and>
      decl_of_sig cfg sig' accelerate = Inr decl' \<and>
      map_of wrappers (dst_path outdir sig) =
        Some (C_COMMENT cfg @ C_PREAMBLE cfg
          @ (if lib_name = ''LAPACK'' then LAPACK_DECLS cfg else '''')
          @ CPP_GUARD_BEGIN cfg @ decl' @ CPP_GUARD_END cfg)"
proof -
  from assms have l: "wrappers_loop cfg (preamble_of cfg lib_name) accelerate outdir [] sigs
      = Inr wrappers"
    by (simp add: generate_file_wrapper_def)
  from loop_keys [OF l] assms(2) have "dst_path outdir sig \<in> fst ` set wrappers" by auto
  then obtain v where v: "map_of wrappers (dst_path outdir sig) = Some v"
    by (metis domD dom_map_of_conv_image_fst)
  from loop_lookup [OF l v] obtain sig' pre decl' where
    s: "sig' \<in> set sigs" and p: "preamble_of cfg lib_name = Some pre" and
    d: "dst_path outdir sig' = dst_path outdir sig" "decl_of_sig cfg sig' accelerate = Inr decl'"
    and t: "v = concat (pre @ [decl', CPP_GUARD_END cfg])"
    by auto
  from v t concat_preamble [OF p] s d show ?thesis by metis
qed

lemma generate_decl_wrapper_total:
  assumes "return_type \<in> dom (C_TYPES cfg)" and "set argtypes \<subseteq> dom (C_TYPES cfg)"
  shows "\<exists>txt. generate_decl_wrapper cfg name return_type argnames argtypes accelerate = Inr txt"
proof (cases "name \<in> WRAPPED_FUNCS cfg \<or> (accelerate \<and> name \<in> USE_OLD_ACCELERATE cfg)")
  case True
  then show ?thesis by (simp add: generate_decl_wrapper_excluded)
next
  case False
  from assms(1) obtain c where c: "C_TYPES cfg return_type = Some c" by auto
  have g: "getitems (C_TYPES cfg) argtypes = Inr (map (\<lambda>t. the (C_TYPES cfg t)) argtypes)"
    using assms(2) by (simp add: getitems_total)
  from False have n: "name \<notin> WRAPPED_FUNCS cfg"
    and a: "\<not> (accelerate \<and> name \<in> USE_OLD_ACCELERATE cfg)" by auto
  show ?thesis by (simp add: generate_decl_wrapper_render [OF n a c g])
qed

lemma generate_file_wrapper_total:
  assumes "lib_name = ''BLAS'' \<or> lib_name = ''LAPACK''"
    and "\<forall>sig \<in> set sigs. sig_return_type sig \<in> dom (C_TYPES cfg) \<and>
           set (sig_argtypes sig) \<subseteq> dom (C_TYPES cfg)"
  shows "\<exists>wrappers. generate_file_wrapper cfg sigs lib_name accelerate outdir = Inr wrappers"
proof -
  from assms(1) obtain pre where p: "preamble_of cfg lib_name = Some pre"
    by (auto simp: preamble_of_def)
  from assms(2) have "\<forall>sig \<in> set sigs. \<exists>d. decl_of_sig cfg sig accelerate = Inr d"
    by (simp add: generate_decl_wrapper_total)
  from loop_total [OF this] show ?thesis
    by (simp add: generate_file_wrapper_def p)
qed

lemma generate_file_wrapper_keys:
  "generate_file_wrapper cfg sigs lib_name accelerate outdir = Inr wrappers \<Longrightarrow>
     fst ` set wrappers = dst_path outdir ` set sigs \<and> distinct (map fst wrappers)"
  using loop_keys [of cfg "preamble_of cfg lib_name" accelerate outdir "[]" sigs wrappers]
    loop_distinct [of cfg "preamble_of cfg lib_name" accelerate outdir "[]" sigs wrappers]
  by (simp add: generate_file_wrapper_def)

text \<open>
  Claim C5, as the claim states it, fails in its second half: a routine of the set
  \<^verbatim>\<open>WRAPPED_FUNCS\<close> does get an output file, which holds the preamble and the
  closing guard and no wrapper.
\<close>

theorem wrapped_func_file_counterexample:
  "sig_name sig_cdotc \<in> WRAPPED_FUNCS sample_config \<and>
   generate_file_wrapper sample_config [sig_cdotc] ''BLAS'' False ''out'' =
     Inr [(''out/cdotc.c'',
           C_COMMENT sample_config @ C_PREAMBLE sample_config @ CPP_GUARD_BEGIN sample_config
             @ CPP_GUARD_END sample_config)]"
  by (simp add: sig_cdotc_def sample_config_def generate_file_wrapper_def preamble_of_def
      dst_path_def path_join_def generate_decl_wrapper_def)

text \<open>
  Claim C5, amended. The dictionary that \<^verbatim>\<open>generate_file_wrapper\<close> returns has no
  path twice and its paths are exactly the paths \<^verbatim>\<open>outdir/name.c\<close> of the
  signatures, so it has at most one file per signature. The path of a routine of the set
  \<^verbatim>\<open>WRAPPED_FUNCS\<close> is among them, and when every signature of the list with that
  path is a routine of \<^verbatim>\<open>WRAPPED_FUNCS\<close>, the text under it is the header comment,
  the preamble, for \<^verbatim>\<open>LAPACK\<close> the LAPACK declarations, and the two guards, with no
  wrapper between them.
\<close>

theorem one_file_per_signature:
  assumes "generate_file_wrapper cfg sigs lib_name accelerate outdir = Inr wrappers"
  shows "distinct (map fst wrappers) \<and>
    set (map fst wrappers) = dst_path outdir ` set sigs \<and>
    length wrappers \<le> length sigs \<and>
    (\<forall>sig \<in> set sigs. sig_name sig \<in> WRAPPED_FUNCS cfg \<longrightarrow>
       dst_path outdir sig \<in> set (map fst wrappers) \<and>
       ((\<forall>s \<in> set sigs. dst_path outdir s = dst_path outdir sig \<longrightarrow>
            sig_name s \<in> WRAPPED_FUNCS cfg) \<longrightarrow>
        map_of wrappers (dst_path outdir sig) =
          Some (C_COMMENT cfg @ C_PREAMBLE cfg
            @ (if lib_name = ''LAPACK'' then LAPACK_DECLS cfg else '''')
            @ CPP_GUARD_BEGIN cfg @ CPP_GUARD_END cfg)))"
proof -
  from assms have l: "wrappers_loop cfg (preamble_of cfg lib_name) accelerate outdir [] sigs
      = Inr wrappers"
    by (simp add: generate_file_wrapper_def)
  from loop_distinct [OF l] have a: "distinct (map fst wrappers)" by simp
  from loop_keys [OF l] have b: "set (map fst wrappers) = dst_path outdir ` set sigs" by simp
  from loop_length [OF l] have c: "length wrappers \<le> length sigs" by simp
  have d: "dst_path outdir sig \<in> set (map fst wrappers) \<and>
       ((\<forall>s \<in> set sigs. dst_path outdir s = dst_path outdir sig \<longrightarrow>
            sig_name s \<in> WRAPPED_FUNCS cfg) \<longrightarrow>
        map_of wrappers (dst_path outdir sig) =
          Some (C_COMMENT cfg @ C_PREAMBLE cfg
            @ (if lib_name = ''LAPACK'' then LAPACK_DECLS cfg else '''')
            @ CPP_GUARD_BEGIN cfg @ CPP_GUARD_END cfg))"
    if m: "sig \<in> set sigs" for sig
  proof (intro conjI impI)
    from b m show "dst_path outdir sig \<in> set (map fst wrappers)" by blast
  next
    assume u: "\<forall>s \<in> set sigs. dst_path outdir s = dst_path outdir sig \<longrightarrow>
            sig_name s \<in> WRAPPED_FUNCS cfg"
    from generate_file_wrapper_lookup [OF assms m] obtain sig' decl' where
      s: "sig' \<in> set sigs" "dst_path outdir sig' = dst_path outdir sig"
         "decl_of_sig cfg sig' accelerate = Inr decl'"
         "map_of wrappers (dst_path outdir sig) =
            Some (C_COMMENT cfg @ C_PREAMBLE cfg
              @ (if lib_name = ''LAPACK'' then LAPACK_DECLS cfg else '''')
              @ CPP_GUARD_BEGIN cfg @ decl' @ CPP_GUARD_END cfg)"
      by blast
    from u s(1,2) have "sig_name sig' \<in> WRAPPED_FUNCS cfg" by blast
    with s(3) have "decl' = ''''" by (simp add: generate_decl_wrapper_excluded)
    with s(4) show "map_of wrappers (dst_path outdir sig) =
          Some (C_COMMENT cfg @ C_PREAMBLE cfg
            @ (if lib_name = ''LAPACK'' then LAPACK_DECLS cfg else '''')
            @ CPP_GUARD_BEGIN cfg @ CPP_GUARD_END cfg)"
      by simp
  qed
  from a b c d show ?thesis by blast
qed

theorem one_file_per_signature_witness:
  "generate_file_wrapper sample_config [sig_cdotc, sig_drotg, sig_cdotc] ''BLAS'' False ''out'' = Inr [(''out/cdotc.c'',
       C_COMMENT sample_config @ C_PREAMBLE sample_config @ CPP_GUARD_BEGIN sample_config
         @ CPP_GUARD_END sample_config),
      (''out/drotg.c'',
       C_COMMENT sample_config @ C_PREAMBLE sample_config @ CPP_GUARD_BEGIN sample_config
         @ ''\<newline>void BLAS_FUNC(drotg)(double *a, double *b, double *c, double *s);\<newline>void F_FUNC(drotg,DROTG)(double *a, double *b, double *c, double *s){\<newline>    return BLAS_FUNC(drotg)(a, b, c, s);\<newline>}\<newline>''
         @ CPP_GUARD_END sample_config)] \<and>
   sig_cdotc \<in> set [sig_cdotc, sig_drotg, sig_cdotc] \<and>
   sig_name sig_cdotc \<in> WRAPPED_FUNCS sample_config \<and>
   list_all (\<lambda>s. dst_path ''out'' s \<noteq> dst_path ''out'' sig_cdotc \<or>
       sig_name s \<in> WRAPPED_FUNCS sample_config) [sig_cdotc, sig_drotg, sig_cdotc] \<and>
   distinct (map fst [(''out/cdotc.c'',
       C_COMMENT sample_config @ C_PREAMBLE sample_config @ CPP_GUARD_BEGIN sample_config
         @ CPP_GUARD_END sample_config),
      (''out/drotg.c'',
       C_COMMENT sample_config @ C_PREAMBLE sample_config @ CPP_GUARD_BEGIN sample_config
         @ ''\<newline>void BLAS_FUNC(drotg)(double *a, double *b, double *c, double *s);\<newline>void F_FUNC(drotg,DROTG)(double *a, double *b, double *c, double *s){\<newline>    return BLAS_FUNC(drotg)(a, b, c, s);\<newline>}\<newline>''
         @ CPP_GUARD_END sample_config)]) \<and>
   set (map fst [(''out/cdotc.c'',
       C_COMMENT sample_config @ C_PREAMBLE sample_config @ CPP_GUARD_BEGIN sample_config
         @ CPP_GUARD_END sample_config),
      (''out/drotg.c'',
       C_COMMENT sample_config @ C_PREAMBLE sample_config @ CPP_GUARD_BEGIN sample_config
         @ ''\<newline>void BLAS_FUNC(drotg)(double *a, double *b, double *c, double *s);\<newline>void F_FUNC(drotg,DROTG)(double *a, double *b, double *c, double *s){\<newline>    return BLAS_FUNC(drotg)(a, b, c, s);\<newline>}\<newline>''
         @ CPP_GUARD_END sample_config)]) = dst_path ''out'' ` set [sig_cdotc, sig_drotg, sig_cdotc] \<and>
   length [(''out/cdotc.c'',
       C_COMMENT sample_config @ C_PREAMBLE sample_config @ CPP_GUARD_BEGIN sample_config
         @ CPP_GUARD_END sample_config),
      (''out/drotg.c'',
       C_COMMENT sample_config @ C_PREAMBLE sample_config @ CPP_GUARD_BEGIN sample_config
         @ ''\<newline>void BLAS_FUNC(drotg)(double *a, double *b, double *c, double *s);\<newline>void F_FUNC(drotg,DROTG)(double *a, double *b, double *c, double *s){\<newline>    return BLAS_FUNC(drotg)(a, b, c, s);\<newline>}\<newline>''
         @ CPP_GUARD_END sample_config)] \<le> length [sig_cdotc, sig_drotg, sig_cdotc] \<and>
   dst_path ''out'' sig_cdotc \<in> set (map fst [(''out/cdotc.c'',
       C_COMMENT sample_config @ C_PREAMBLE sample_config @ CPP_GUARD_BEGIN sample_config
         @ CPP_GUARD_END sample_config),
      (''out/drotg.c'',
       C_COMMENT sample_config @ C_PREAMBLE sample_config @ CPP_GUARD_BEGIN sample_config
         @ ''\<newline>void BLAS_FUNC(drotg)(double *a, double *b, double *c, double *s);\<newline>void F_FUNC(drotg,DROTG)(double *a, double *b, double *c, double *s){\<newline>    return BLAS_FUNC(drotg)(a, b, c, s);\<newline>}\<newline>''
         @ CPP_GUARD_END sample_config)]) \<and>
   map_of [(''out/cdotc.c'',
       C_COMMENT sample_config @ C_PREAMBLE sample_config @ CPP_GUARD_BEGIN sample_config
         @ CPP_GUARD_END sample_config),
      (''out/drotg.c'',
       C_COMMENT sample_config @ C_PREAMBLE sample_config @ CPP_GUARD_BEGIN sample_config
         @ ''\<newline>void BLAS_FUNC(drotg)(double *a, double *b, double *c, double *s);\<newline>void F_FUNC(drotg,DROTG)(double *a, double *b, double *c, double *s){\<newline>    return BLAS_FUNC(drotg)(a, b, c, s);\<newline>}\<newline>''
         @ CPP_GUARD_END sample_config)] (dst_path ''out'' sig_cdotc) =
     Some (C_COMMENT sample_config @ C_PREAMBLE sample_config
       @ (if ''BLAS'' = ''LAPACK'' then LAPACK_DECLS sample_config else '''')
       @ CPP_GUARD_BEGIN sample_config @ CPP_GUARD_END sample_config)"
proof -
  have d1: "decl_of_sig sample_config sig_cdotc False = Inr ''''"
    by code_simp
  have d2: "decl_of_sig sample_config sig_drotg False = Inr ''\<newline>void BLAS_FUNC(drotg)(double *a, double *b, double *c, double *s);\<newline>void F_FUNC(drotg,DROTG)(double *a, double *b, double *c, double *s){\<newline>    return BLAS_FUNC(drotg)(a, b, c, s);\<newline>}\<newline>''"
    by code_simp
  have h: "generate_file_wrapper sample_config [sig_cdotc, sig_drotg, sig_cdotc] ''BLAS'' False ''out'' = Inr [(''out/cdotc.c'',
       C_COMMENT sample_config @ C_PREAMBLE sample_config @ CPP_GUARD_BEGIN sample_config
         @ CPP_GUARD_END sample_config),
      (''out/drotg.c'',
       C_COMMENT sample_config @ C_PREAMBLE sample_config @ CPP_GUARD_BEGIN sample_config
         @ ''\<newline>void BLAS_FUNC(drotg)(double *a, double *b, double *c, double *s);\<newline>void F_FUNC(drotg,DROTG)(double *a, double *b, double *c, double *s){\<newline>    return BLAS_FUNC(drotg)(a, b, c, s);\<newline>}\<newline>''
         @ CPP_GUARD_END sample_config)]"
    by (simp add: generate_file_wrapper_def preamble_of_def d1 d2)
       (simp add: sample_defs)
  have m: "sig_cdotc \<in> set [sig_cdotc, sig_drotg, sig_cdotc]" by simp
  have w: "sig_name sig_cdotc \<in> WRAPPED_FUNCS sample_config"
    by (simp add: sample_defs)
  have u: "\<forall>s \<in> set [sig_cdotc, sig_drotg, sig_cdotc]. dst_path ''out'' s = dst_path ''out'' sig_cdotc \<longrightarrow>
      sig_name s \<in> WRAPPED_FUNCS sample_config"
    by (simp add: sample_defs)
  have u': "list_all (\<lambda>s. dst_path ''out'' s \<noteq> dst_path ''out'' sig_cdotc \<or>
       sig_name s \<in> WRAPPED_FUNCS sample_config) [sig_cdotc, sig_drotg, sig_cdotc]"
    by (simp add: sample_defs)
  note t = one_file_per_signature [OF h]
  note a = t [THEN conjunct1]
  note b = t [THEN conjunct2, THEN conjunct1]
  note c = t [THEN conjunct2, THEN conjunct2, THEN conjunct1]
  note d = t [THEN conjunct2, THEN conjunct2, THEN conjunct2, THEN bspec, THEN mp, OF m w]
  note e = d [THEN conjunct1]
  note f = d [THEN conjunct2, THEN mp, OF u]
  show ?thesis
    by (rule conjI [OF h conjI [OF m conjI [OF w conjI [OF u' conjI [OF a conjI [OF b
          conjI [OF c conjI [OF e f]]]]]]]])
qed

text \<open>
  Claim C8. When \<^verbatim>\<open>generate_file_wrapper\<close> returns a dictionary, the library is
  \<^verbatim>\<open>BLAS\<close> or \<^verbatim>\<open>LAPACK\<close> and every signature of the list, also one whose
  wrapper is empty, has an entry under its path. The text of the entry is the header
  comment, the preamble, for \<^verbatim>\<open>LAPACK\<close> the LAPACK declarations, the opening guard,
  the declaration generated for a signature of that path and the closing guard. Where no
  other signature of the list has the same path, the declaration is the signature's own.
\<close>

theorem file_text_is_concatenation:
  assumes "generate_file_wrapper cfg sigs lib_name accelerate outdir = Inr wrappers"
    and "sig \<in> set sigs"
  shows "(lib_name = ''BLAS'' \<or> lib_name = ''LAPACK'') \<and>
    (\<exists>decl. decl_of_sig cfg sig accelerate = Inr decl \<and>
      (\<exists>sig' \<in> set sigs. \<exists>decl'.
         dst_path outdir sig' = dst_path outdir sig \<and>
         decl_of_sig cfg sig' accelerate = Inr decl' \<and>
         map_of wrappers (dst_path outdir sig) =
           Some (C_COMMENT cfg @ C_PREAMBLE cfg
             @ (if lib_name = ''LAPACK'' then LAPACK_DECLS cfg else '''')
             @ CPP_GUARD_BEGIN cfg @ decl' @ CPP_GUARD_END cfg)) \<and>
      ((\<forall>s \<in> set sigs. dst_path outdir s = dst_path outdir sig \<longrightarrow> s = sig) \<longrightarrow>
         map_of wrappers (dst_path outdir sig) =
           Some (C_COMMENT cfg @ C_PREAMBLE cfg
             @ (if lib_name = ''LAPACK'' then LAPACK_DECLS cfg else '''')
             @ CPP_GUARD_BEGIN cfg @ decl @ CPP_GUARD_END cfg)))"
proof -
  from assms have l: "wrappers_loop cfg (preamble_of cfg lib_name) accelerate outdir [] sigs
      = Inr wrappers"
    by (simp add: generate_file_wrapper_def)
  from assms(2) have ne: "sigs \<noteq> []" by auto
  from generate_file_wrapper_preamble [OF assms(1) ne]
  have lib: "lib_name = ''BLAS'' \<or> lib_name = ''LAPACK''"
    by (auto simp: preamble_of_def split: if_splits)
  from loop_succeeds_decls [OF l assms(2)] obtain decl where
    d: "decl_of_sig cfg sig accelerate = Inr decl" by blast
  from generate_file_wrapper_lookup [OF assms] obtain sig' decl' where
    s: "sig' \<in> set sigs" "dst_path outdir sig' = dst_path outdir sig"
       "decl_of_sig cfg sig' accelerate = Inr decl'"
       "map_of wrappers (dst_path outdir sig) =
          Some (C_COMMENT cfg @ C_PREAMBLE cfg
            @ (if lib_name = ''LAPACK'' then LAPACK_DECLS cfg else '''')
            @ CPP_GUARD_BEGIN cfg @ decl' @ CPP_GUARD_END cfg)"
    by blast
  have u: "map_of wrappers (dst_path outdir sig) =
           Some (C_COMMENT cfg @ C_PREAMBLE cfg
             @ (if lib_name = ''LAPACK'' then LAPACK_DECLS cfg else '''')
             @ CPP_GUARD_BEGIN cfg @ decl @ CPP_GUARD_END cfg)"
    if "\<forall>s \<in> set sigs. dst_path outdir s = dst_path outdir sig \<longrightarrow> s = sig"
  proof -
    from that s(1,2) have "sig' = sig" by blast
    with s(3,4) d show ?thesis by simp
  qed
  from lib d s u show ?thesis by blast
qed

theorem file_text_is_concatenation_witness:
  "generate_file_wrapper sample_config [sig_dlamch] ''LAPACK'' True ''out'' =
     Inr [(''out/dlamch.c'',
           C_COMMENT sample_config @ C_PREAMBLE sample_config @ LAPACK_DECLS sample_config
             @ CPP_GUARD_BEGIN sample_config
             @ ''\<newline>double BLAS_FUNC(dlamch)(char *cmach);\<newline>double F_FUNC(dlamch,DLAMCH)(char *cmach){\<newline>    return BLAS_FUNC(dlamch)(cmach);\<newline>}\<newline>''
             @ CPP_GUARD_END sample_config)] \<and>
   sig_dlamch \<in> set [sig_dlamch] \<and>
   (''LAPACK'' = ''BLAS'' \<or> ''LAPACK'' = ''LAPACK'') \<and>
   (\<exists>decl. decl_of_sig sample_config sig_dlamch True = Inr decl \<and>
      (\<exists>sig' \<in> set [sig_dlamch]. \<exists>decl'.
         dst_path ''out'' sig' = dst_path ''out'' sig_dlamch \<and>
         decl_of_sig sample_config sig' True = Inr decl' \<and>
         map_of [(''out/dlamch.c'',
           C_COMMENT sample_config @ C_PREAMBLE sample_config @ LAPACK_DECLS sample_config
             @ CPP_GUARD_BEGIN sample_config
             @ ''\<newline>double BLAS_FUNC(dlamch)(char *cmach);\<newline>double F_FUNC(dlamch,DLAMCH)(char *cmach){\<newline>    return BLAS_FUNC(dlamch)(cmach);\<newline>}\<newline>''
             @ CPP_GUARD_END sample_config)] (dst_path ''out'' sig_dlamch) =
           Some (C_COMMENT sample_config @ C_PREAMBLE sample_config
             @ (if ''LAPACK'' = ''LAPACK'' then LAPACK_DECLS sample_config else '''')
             @ CPP_GUARD_BEGIN sample_config @ decl' @ CPP_GUARD_END sample_config)) \<and>
      ((\<forall>s \<in> set [sig_dlamch].
           dst_path ''out'' s = dst_path ''out'' sig_dlamch \<longrightarrow> s = sig_dlamch) \<longrightarrow>
         map_of [(''out/dlamch.c'',
           C_COMMENT sample_config @ C_PREAMBLE sample_config @ LAPACK_DECLS sample_config
             @ CPP_GUARD_BEGIN sample_config
             @ ''\<newline>double BLAS_FUNC(dlamch)(char *cmach);\<newline>double F_FUNC(dlamch,DLAMCH)(char *cmach){\<newline>    return BLAS_FUNC(dlamch)(cmach);\<newline>}\<newline>''
             @ CPP_GUARD_END sample_config)] (dst_path ''out'' sig_dlamch) =
           Some (C_COMMENT sample_config @ C_PREAMBLE sample_config
             @ (if ''LAPACK'' = ''LAPACK'' then LAPACK_DECLS sample_config else '''')
             @ CPP_GUARD_BEGIN sample_config @ decl @ CPP_GUARD_END sample_config)))"
proof -
  have d: "decl_of_sig sample_config sig_dlamch True =
     Inr ''\<newline>double BLAS_FUNC(dlamch)(char *cmach);\<newline>double F_FUNC(dlamch,DLAMCH)(char *cmach){\<newline>    return BLAS_FUNC(dlamch)(cmach);\<newline>}\<newline>''"
    by code_simp
  have h: "generate_file_wrapper sample_config [sig_dlamch] ''LAPACK'' True ''out'' =
     Inr [(''out/dlamch.c'',
           C_COMMENT sample_config @ C_PREAMBLE sample_config @ LAPACK_DECLS sample_config
             @ CPP_GUARD_BEGIN sample_config
             @ ''\<newline>double BLAS_FUNC(dlamch)(char *cmach);\<newline>double F_FUNC(dlamch,DLAMCH)(char *cmach){\<newline>    return BLAS_FUNC(dlamch)(cmach);\<newline>}\<newline>''
             @ CPP_GUARD_END sample_config)]"
    by (simp add: generate_file_wrapper_def preamble_of_def d)
       (simp add: sample_defs)
  have m: "sig_dlamch \<in> set [sig_dlamch]" by simp
  show ?thesis
    by (rule conjI [OF h conjI [OF m file_text_is_concatenation [OF h m]]])
qed

subsection \<open>The run of \<^verbatim>\<open>make_all\<close>\<close>

lemma dict_kwargs_disjoint:
  "fst ` set a \<inter> fst ` set b = {} \<Longrightarrow> dict_kwargs a b = Inr (a @ b)"
proof -
  assume d: "fst ` set a \<inter> fst ` set b = {}"
  have "filter (\<lambda>k. k \<in> fst ` set a) (map fst b) = []"
    using d by (auto simp: filter_empty_conv)
  then show ?thesis by (simp add: dict_kwargs_def)
qed

lemma write_files_writes: "writes (write_files al w) = writes w @ map fst al"
  by (induction al w rule: write_files.induct) simp_all

lemma write_files_stdout: "stdout (write_files al w) = stdout w"
  by (induction al w rule: write_files.induct) simp_all

lemma write_files_clock: "clock (write_files al w) = clock w + length al"
  by (induction al w rule: write_files.induct) simp_all

lemma write_files_other:
  "p \<notin> fst ` set al \<Longrightarrow> files (write_files al w) p = files w p"
  by (induction al w rule: write_files.induct) auto

lemma write_files_written:
  "distinct (map fst al) \<Longrightarrow> (p, content) \<in> set al \<Longrightarrow>
     \<exists>t. files (write_files al w) p = Some (content, t) \<and> clock w < t"
proof (induction al w rule: write_files.induct)
  case (1 w)
  then show ?case by simp
next
  case (2 file_path content' rest w)
  let ?w = "w\<lparr>files := (files w)(file_path \<mapsto> (content', Suc (clock w))),
              clock := Suc (clock w), writes := writes w @ [file_path]\<rparr>"
  show ?case
  proof (cases "(p, content) \<in> set rest")
    case True
    from "2.prems"(1) have "distinct (map fst rest)" by simp
    from "2.IH" [OF this True] obtain t where
      "files (write_files rest ?w) p = Some (content, t)" "clock ?w < t" by blast
    then show ?thesis by auto
  next
    case False
    with "2.prems"(2) have e: "p = file_path" "content = content'" by auto
    from "2.prems"(1) e have "p \<notin> fst ` set rest" by auto
    from write_files_other [OF this, of ?w] e show ?thesis by simp
  qed
qed

lemma newer_asym: "newer w a b \<Longrightarrow> \<not> newer w b a"
  by (auto simp: newer_def split: option.splits)

lemma newer_stdout: "newer (w\<lparr>stdout := out\<rparr>) a b = newer w a b"
  by (simp add: newer_def split: option.splits)

lemma make_all_skip:
  assumes "files w blas_signature_file = Some (blas_text, blas_mtime)"
    and "files w lapack_signature_file = Some (lapack_text, lapack_mtime)"
    and "read_signatures cfg (readlines blas_text) = Inr blas_sigs"
    and "read_signatures cfg (readlines lapack_text) = Inr lapack_sigs"
    and "all_newer w (map (dst_path outdir) (blas_sigs @ lapack_sigs))
           [module_file cfg, blas_signature_file, lapack_signature_file]"
  shows "make_all cfg outdir blas_signature_file lapack_signature_file accelerate w =
      Inr (w\<lparr>stdout := stdout w @ [up_to_date_message]\<rparr>)"
  using assms by (simp add: make_all_def open_readlines_def Let_def)

lemma make_all_regenerates:
  assumes bf: "files w blas_signature_file = Some (blas_text, blas_mtime)"
    and lf: "files w lapack_signature_file = Some (lapack_text, lapack_mtime)"
    and bs: "read_signatures cfg (readlines blas_text) = Inr blas_sigs"
    and ls: "read_signatures cfg (readlines lapack_text) = Inr lapack_sigs"
    and stale: "\<not> all_newer w (map (dst_path outdir) (blas_sigs @ lapack_sigs))
                   [module_file cfg, blas_signature_file, lapack_signature_file]"
    and types: "\<forall>sig \<in> set (blas_sigs @ lapack_sigs).
                  sig_return_type sig \<in> dom (C_TYPES cfg) \<and>
                  set (sig_argtypes sig) \<subseteq> dom (C_TYPES cfg)"
    and disj: "dst_path outdir ` set blas_sigs \<inter> dst_path outdir ` set lapack_sigs = {}"
  shows "\<exists>blas_wrappers lapack_wrappers.
    generate_file_wrapper cfg blas_sigs ''BLAS'' accelerate outdir = Inr blas_wrappers \<and>
    generate_file_wrapper cfg lapack_sigs ''LAPACK'' accelerate outdir = Inr lapack_wrappers \<and>
    make_all cfg outdir blas_signature_file lapack_signature_file accelerate w =
      Inr (write_files (blas_wrappers @ lapack_wrappers) w) \<and>
    distinct (map fst (blas_wrappers @ lapack_wrappers)) \<and>
    set (map fst (blas_wrappers @ lapack_wrappers)) =
      dst_path outdir ` set (blas_sigs @ lapack_sigs)"
proof -
  from types have tb: "\<forall>sig \<in> set blas_sigs. sig_return_type sig \<in> dom (C_TYPES cfg) \<and>
                  set (sig_argtypes sig) \<subseteq> dom (C_TYPES cfg)"
    and tl: "\<forall>sig \<in> set lapack_sigs. sig_return_type sig \<in> dom (C_TYPES cfg) \<and>
                  set (sig_argtypes sig) \<subseteq> dom (C_TYPES cfg)"
    by auto
  from generate_file_wrapper_total [OF _ tb, of "''BLAS''" accelerate outdir]
  obtain bw where bw: "generate_file_wrapper cfg blas_sigs ''BLAS'' accelerate outdir = Inr bw"
    by auto
  from generate_file_wrapper_total [OF _ tl, of "''LAPACK''" accelerate outdir]
  obtain lw where lw: "generate_file_wrapper cfg lapack_sigs ''LAPACK'' accelerate outdir = Inr lw"
    by auto
  note kb = generate_file_wrapper_keys [OF bw] and kl = generate_file_wrapper_keys [OF lw]
  from kb kl disj have d: "fst ` set bw \<inter> fst ` set lw = {}" by simp
  have m: "make_all cfg outdir blas_signature_file lapack_signature_file accelerate w =
      Inr (write_files (bw @ lw) w)"
    using bf lf bs ls stale bw lw dict_kwargs_disjoint [OF d]
    by (simp add: make_all_def open_readlines_def Let_def)
  have di: "distinct (map fst (bw @ lw))"
    using kb kl d by auto
  have ks: "set (map fst (bw @ lw)) = dst_path outdir ` set (blas_sigs @ lapack_sigs)"
    using kb kl by (simp add: image_Un)
  from bw lw m di ks show ?thesis by blast
qed

text \<open>
  Claim C6. When both signature files can be read and parsed and every output file exists
  and is newer than the generator and both signature files, \<^verbatim>\<open>make_all\<close> returns
  with the world unchanged but for the one status line printed: no file is written. A
  second run from there does the same.
\<close>

theorem fresh_outputs_skip_generation:
  assumes "files w blas_signature_file = Some (blas_text, blas_mtime)"
    and "files w lapack_signature_file = Some (lapack_text, lapack_mtime)"
    and "read_signatures cfg (readlines blas_text) = Inr blas_sigs"
    and "read_signatures cfg (readlines lapack_text) = Inr lapack_sigs"
    and "\<forall>sig \<in> set (blas_sigs @ lapack_sigs).
           \<forall>src \<in> {module_file cfg, blas_signature_file, lapack_signature_file}.
             newer w (dst_path outdir sig) src"
  shows "make_all cfg outdir blas_signature_file lapack_signature_file accelerate w =
      Inr (w\<lparr>stdout := stdout w @ [up_to_date_message]\<rparr>) \<and>
    make_all cfg outdir blas_signature_file lapack_signature_file accelerate
        (w\<lparr>stdout := stdout w @ [up_to_date_message]\<rparr>) =
      Inr (w\<lparr>stdout := stdout w @ [up_to_date_message, up_to_date_message]\<rparr>) \<and>
    writes (w\<lparr>stdout := stdout w @ [up_to_date_message, up_to_date_message]\<rparr>) = writes w \<and>
    files (w\<lparr>stdout := stdout w @ [up_to_date_message, up_to_date_message]\<rparr>) = files w"
proof -
  let ?w = "w\<lparr>stdout := stdout w @ [up_to_date_message]\<rparr>"
  from assms(5) have fresh: "all_newer w (map (dst_path outdir) (blas_sigs @ lapack_sigs))
      [module_file cfg, blas_signature_file, lapack_signature_file]"
    by (auto simp: all_newer_def)
  then have fresh': "all_newer ?w (map (dst_path outdir) (blas_sigs @ lapack_sigs))
      [module_file cfg, blas_signature_file, lapack_signature_file]"
    by (simp add: all_newer_def newer_stdout)
  have f: "files ?w blas_signature_file = Some (blas_text, blas_mtime)"
      "files ?w lapack_signature_file = Some (lapack_text, lapack_mtime)"
    using assms(1,2) by simp_all
  from make_all_skip [OF assms(1-4) fresh, of accelerate]
    make_all_skip [OF f assms(3,4) fresh', of accelerate]
  show ?thesis by simp
qed

theorem fresh_outputs_skip_generation_witness:
  "files (sample_world 10) ''/sigs/blas.txt'' = Some (''drotg\<newline>cdotc\<newline>'', 5) \<and>
   files (sample_world 10) ''/sigs/lapack.txt'' = Some (''dlamch\<newline>'', 6) \<and>
   read_signatures sample_config (readlines ''drotg\<newline>cdotc\<newline>'')
     = Inr [sig_drotg, sig_cdotc] \<and>
   read_signatures sample_config (readlines ''dlamch\<newline>'') = Inr [sig_dlamch] \<and>
   list_all (\<lambda>sig. list_all (\<lambda>src. newer (sample_world 10) (dst_path ''out'' sig) src)
       [module_file sample_config, ''/sigs/blas.txt'', ''/sigs/lapack.txt''])
     ([sig_drotg, sig_cdotc] @ [sig_dlamch]) \<and>
   make_all sample_config ''out'' ''/sigs/blas.txt'' ''/sigs/lapack.txt'' False (sample_world 10) =
      Inr ((sample_world 10)\<lparr>stdout := stdout (sample_world 10) @ [up_to_date_message]\<rparr>) \<and>
   make_all sample_config ''out'' ''/sigs/blas.txt'' ''/sigs/lapack.txt'' False
        ((sample_world 10)\<lparr>stdout := stdout (sample_world 10) @ [up_to_date_message]\<rparr>) =
      Inr ((sample_world 10)\<lparr>stdout := stdout (sample_world 10)
             @ [up_to_date_message, up_to_date_message]\<rparr>) \<and>
   writes ((sample_world 10)\<lparr>stdout := stdout (sample_world 10)
             @ [up_to_date_message, up_to_date_message]\<rparr>) = writes (sample_world 10) \<and>
   files ((sample_world 10)\<lparr>stdout := stdout (sample_world 10)
             @ [up_to_date_message, up_to_date_message]\<rparr>) = files (sample_world 10)"
proof -
  have h1: "files (sample_world 10) ''/sigs/blas.txt'' = Some (''drotg\<newline>cdotc\<newline>'', 5)"
    by (simp add: sample_world_def)
  have h2: "files (sample_world 10) ''/sigs/lapack.txt'' = Some (''dlamch\<newline>'', 6)"
    by (simp add: sample_world_def)
  have h3: "read_signatures sample_config (readlines ''drotg\<newline>cdotc\<newline>'')
      = Inr [sig_drotg, sig_cdotc]"
    by (simp add: sample_config_def sample_read_signatures_def)
  have h4: "read_signatures sample_config (readlines ''dlamch\<newline>'') = Inr [sig_dlamch]"
    by (simp add: sample_config_def sample_read_signatures_def)
  have h5: "\<forall>sig \<in> set ([sig_drotg, sig_cdotc] @ [sig_dlamch]).
      \<forall>src \<in> {module_file sample_config, ''/sigs/blas.txt'', ''/sigs/lapack.txt''}.
        newer (sample_world 10) (dst_path ''out'' sig) src"
    by (simp add: sample_defs newer_def)
  have h5': "list_all (\<lambda>sig. list_all (\<lambda>src. newer (sample_world 10) (dst_path ''out'' sig) src)
       [module_file sample_config, ''/sigs/blas.txt'', ''/sigs/lapack.txt''])
     ([sig_drotg, sig_cdotc] @ [sig_dlamch])"
    by (simp add: sample_defs newer_def)
  show ?thesis
    by (rule conjI [OF h1 conjI [OF h2 conjI [OF h3 conjI [OF h4 conjI [OF h5'
          fresh_outputs_skip_generation [OF h1 h2 h3 h4 h5]]]]]])
qed

text \<open>
  Claim C7. When both signature files can be read and parsed, the types of every signature
  are keys of \<^verbatim>\<open>C_TYPES\<close>, no path belongs to both libraries, and one input file is
  newer than one output file, \<^verbatim>\<open>make_all\<close> writes the whole of both dictionaries:
  the paths written are those of all the signatures of both libraries, and after the run
  each holds its generated text, stamped later than the clock at the start.
\<close>

theorem stale_output_regenerates_all:
  assumes "files w blas_signature_file = Some (blas_text, blas_mtime)"
    and "files w lapack_signature_file = Some (lapack_text, lapack_mtime)"
    and "read_signatures cfg (readlines blas_text) = Inr blas_sigs"
    and "read_signatures cfg (readlines lapack_text) = Inr lapack_sigs"
    and "\<exists>sig \<in> set (blas_sigs @ lapack_sigs).
           \<exists>src \<in> {module_file cfg, blas_signature_file, lapack_signature_file}.
             newer w src (dst_path outdir sig)"
    and "\<forall>sig \<in> set (blas_sigs @ lapack_sigs).
           sig_return_type sig \<in> dom (C_TYPES cfg) \<and>
           set (sig_argtypes sig) \<subseteq> dom (C_TYPES cfg)"
    and "dst_path outdir ` set blas_sigs \<inter> dst_path outdir ` set lapack_sigs = {}"
  shows "\<exists>blas_wrappers lapack_wrappers w'.
    generate_file_wrapper cfg blas_sigs ''BLAS'' accelerate outdir = Inr blas_wrappers \<and>
    generate_file_wrapper cfg lapack_sigs ''LAPACK'' accelerate outdir = Inr lapack_wrappers \<and>
    make_all cfg outdir blas_signature_file lapack_signature_file accelerate w = Inr w' \<and>
    writes w' = writes w @ map fst (blas_wrappers @ lapack_wrappers) \<and>
    set (map fst (blas_wrappers @ lapack_wrappers)) =
      dst_path outdir ` set (blas_sigs @ lapack_sigs) \<and>
    (\<forall>sig \<in> set (blas_sigs @ lapack_sigs). \<exists>content t.
        (dst_path outdir sig, content) \<in> set (blas_wrappers @ lapack_wrappers) \<and>
        files w' (dst_path outdir sig) = Some (content, t) \<and> clock w < t)"
proof -
  from assms(5) obtain sig src where
    s: "sig \<in> set (blas_sigs @ lapack_sigs)"
       "src \<in> {module_file cfg, blas_signature_file, lapack_signature_file}"
       "newer w src (dst_path outdir sig)"
    by blast
  from newer_asym [OF s(3)] s(1,2)
  have stale: "\<not> all_newer w (map (dst_path outdir) (blas_sigs @ lapack_sigs))
                   [module_file cfg, blas_signature_file, lapack_signature_file]"
    unfolding all_newer_def by force
  from make_all_regenerates [OF assms(1-4) stale assms(6,7), of accelerate]
  obtain bw lw where
    g: "generate_file_wrapper cfg blas_sigs ''BLAS'' accelerate outdir = Inr bw"
       "generate_file_wrapper cfg lapack_sigs ''LAPACK'' accelerate outdir = Inr lw"
    and m: "make_all cfg outdir blas_signature_file lapack_signature_file accelerate w =
      Inr (write_files (bw @ lw) w)"
    and di: "distinct (map fst (bw @ lw))"
    and ks: "set (map fst (bw @ lw)) = dst_path outdir ` set (blas_sigs @ lapack_sigs)"
    by blast
  have wr: "writes (write_files (bw @ lw) w) = writes w @ map fst (bw @ lw)"
    by (rule write_files_writes)
  have each: "\<exists>content t. (dst_path outdir sg, content) \<in> set (bw @ lw) \<and>
        files (write_files (bw @ lw) w) (dst_path outdir sg) = Some (content, t) \<and> clock w < t"
    if "sg \<in> set (blas_sigs @ lapack_sigs)" for sg
  proof -
    from that ks have "dst_path outdir sg \<in> fst ` set (bw @ lw)" by auto
    then obtain content where e: "(dst_path outdir sg, content) \<in> set (bw @ lw)" by force
    from write_files_written [OF di e, of w] e show ?thesis by blast
  qed
  from g m wr ks each show ?thesis by blast
qed

theorem stale_output_regenerates_all_witness:
  "files (sample_world 4) ''/sigs/blas.txt'' = Some (''drotg\<newline>cdotc\<newline>'', 5) \<and>
   files (sample_world 4) ''/sigs/lapack.txt'' = Some (''dlamch\<newline>'', 6) \<and>
   read_signatures sample_config (readlines ''drotg\<newline>cdotc\<newline>'')
     = Inr [sig_drotg, sig_cdotc] \<and>
   read_signatures sample_config (readlines ''dlamch\<newline>'') = Inr [sig_dlamch] \<and>
   (\<exists>sig \<in> set ([sig_drotg, sig_cdotc] @ [sig_dlamch]).
      \<exists>src \<in> {module_file sample_config, ''/sigs/blas.txt'', ''/sigs/lapack.txt''}.
        newer (sample_world 4) src (dst_path ''out'' sig)) \<and>
   list_all (\<lambda>sig. sig_return_type sig \<in> dom (C_TYPES sample_config) \<and>
       set (sig_argtypes sig) \<subseteq> dom (C_TYPES sample_config))
     ([sig_drotg, sig_cdotc] @ [sig_dlamch]) \<and>
   dst_path ''out'' ` set [sig_drotg, sig_cdotc] \<inter> dst_path ''out'' ` set [sig_dlamch] = {} \<and>
   (\<exists>blas_wrappers lapack_wrappers w'.
      generate_file_wrapper sample_config [sig_drotg, sig_cdotc] ''BLAS'' False ''out''
        = Inr blas_wrappers \<and>
      generate_file_wrapper sample_config [sig_dlamch] ''LAPACK'' False ''out''
        = Inr lapack_wrappers \<and>
      make_all sample_config ''out'' ''/sigs/blas.txt'' ''/sigs/lapack.txt'' False (sample_world 4)
        = Inr w' \<and>
      writes w' = writes (sample_world 4) @ map fst (blas_wrappers @ lapack_wrappers) \<and>
      set (map fst (blas_wrappers @ lapack_wrappers)) =
        dst_path ''out'' ` set ([sig_drotg, sig_cdotc] @ [sig_dlamch]) \<and>
      (\<forall>sig \<in> set ([sig_drotg, sig_cdotc] @ [sig_dlamch]). \<exists>content t.
          (dst_path ''out'' sig, content) \<in> set (blas_wrappers @ lapack_wrappers) \<and>
          files w' (dst_path ''out'' sig) = Some (content, t) \<and> clock (sample_world 4) < t))"
proof -
  have h1: "files (sample_world 4) ''/sigs/blas.txt'' = Some (''drotg\<newline>cdotc\<newline>'', 5)"
    by (simp add: sample_world_def)
  have h2: "files (sample_world 4) ''/sigs/lapack.txt'' = Some (''dlamch\<newline>'', 6)"
    by (simp add: sample_world_def)
  have h3: "read_signatures sample_config (readlines ''drotg\<newline>cdotc\<newline>'')
      = Inr [sig_drotg, sig_cdotc]"
    by (simp add: sample_config_def sample_read_signatures_def)
  have h4: "read_signatures sample_config (readlines ''dlamch\<newline>'') = Inr [sig_dlamch]"
    by (simp add: sample_config_def sample_read_signatures_def)
  have h5: "\<exists>sig \<in> set ([sig_drotg, sig_cdotc] @ [sig_dlamch]).
      \<exists>src \<in> {module_file sample_config, ''/sigs/blas.txt'', ''/sigs/lapack.txt''}.
        newer (sample_world 4) src (dst_path ''out'' sig)"
    by (simp add: sample_defs newer_def)
  have h6: "\<forall>sig \<in> set ([sig_drotg, sig_cdotc] @ [sig_dlamch]).
      sig_return_type sig \<in> dom (C_TYPES sample_config) \<and>
      set (sig_argtypes sig) \<subseteq> dom (C_TYPES sample_config)"
    by (simp add: sample_defs)
  have h6': "list_all (\<lambda>sig. sig_return_type sig \<in> dom (C_TYPES sample_config) \<and>
       set (sig_argtypes sig) \<subseteq> dom (C_TYPES sample_config))
     ([sig_drotg, sig_cdotc] @ [sig_dlamch])"
    by (simp add: sample_defs)
  have h7: "dst_path ''out'' ` set [sig_drotg, sig_cdotc] \<inter> dst_path ''out'' ` set [sig_dlamch]
      = {}"
    by (simp add: sample_defs)
  show ?thesis
    by (rule conjI [OF h1 conjI [OF h2 conjI [OF h3 conjI [OF h4 conjI [OF h5 conjI [OF h6'
          conjI [OF h7 stale_output_regenerates_all [OF h1 h2 h3 h4 h5 h6 h7]]]]]]]])
qed

end
